theory Spec2Isabelle
  imports Complex_Main "HOL-Library.Sublist" "HOL-Library.Log_Nat" "HOL-Library.Multiset"
begin

section \<open>JavaScript values\<close>

subsection \<open>Numbers\<close>

text \<open>
  A JavaScript Number is an IEEE-754 binary64 value. A finite one is modelled by its exact
  rational value, and every arithmetic operation rounds its exact result to the nearest
  binary64 value, ties to even (\<open>to_double\<close>). The model has a single zero: the program
  modelled here does nothing that tells the two zeros apart.
\<close>

datatype jsnum = NaN | PosInf | NegInf | Fin rat

definition ilog2 :: "rat \<Rightarrow> int" where
  \<comment> \<open>\<open>\<lfloor>log\<^sub>2 \<bar>q\<bar>\<rfloor>\<close> for \<open>q \<noteq> 0\<close>\<close>
  "ilog2 q =
     (if 1 \<le> \<bar>q\<bar> then bitlen \<lfloor>\<bar>q\<bar>\<rfloor> - 1 else - bitlen (\<lceil>1 / \<bar>q\<bar>\<rceil> - 1))"

definition scale2 :: "rat \<Rightarrow> int \<Rightarrow> rat" where
  \<comment> \<open>\<open>x \<sqdot> 2\<^sup>k\<close>\<close>
  "scale2 x k = (if 0 \<le> k then x * 2 ^ nat k else x / 2 ^ nat (- k))"

definition round_half_even :: "rat \<Rightarrow> int" where
  "round_half_even x =
     (let f = \<lfloor>x\<rfloor>; r = x - of_int f
      in if r < 1 / 2 then f else if 1 / 2 < r then f + 1 else if even f then f else f + 1)"

definition to_double :: "rat \<Rightarrow> jsnum" where
  \<comment> \<open>53 bits of precision, exponents from -1022 (subnormals below) to 1023, overflow to infinity\<close>
  "to_double q =
     (if q = 0 then Fin 0
      else
        let e = max (ilog2 q) (- 1022);
            v = scale2 (of_int (round_half_even (scale2 \<bar>q\<bar> (52 - e)))) (e - 52)
        in if 2 ^ 1024 \<le> v then (if q < 0 then NegInf else PosInf)
           else Fin (if q < 0 then - v else v))"

fun num_add :: "jsnum \<Rightarrow> jsnum \<Rightarrow> jsnum" where
  "num_add NaN _ = NaN"
| "num_add _ NaN = NaN"
| "num_add PosInf NegInf = NaN"
| "num_add NegInf PosInf = NaN"
| "num_add PosInf _ = PosInf"
| "num_add _ PosInf = PosInf"
| "num_add NegInf _ = NegInf"
| "num_add _ NegInf = NegInf"
| "num_add (Fin a) (Fin b) = to_double (a + b)"

definition signed_inf :: "bool \<Rightarrow> jsnum" where
  "signed_inf negative = (if negative then NegInf else PosInf)"

fun num_mul :: "jsnum \<Rightarrow> jsnum \<Rightarrow> jsnum" where
  "num_mul NaN _ = NaN"
| "num_mul _ NaN = NaN"
| "num_mul (Fin a) (Fin b) = to_double (a * b)"
| "num_mul (Fin a) PosInf = (if a = 0 then NaN else signed_inf (a < 0))"
| "num_mul (Fin a) NegInf = (if a = 0 then NaN else signed_inf (0 < a))"
| "num_mul PosInf (Fin b) = (if b = 0 then NaN else signed_inf (b < 0))"
| "num_mul NegInf (Fin b) = (if b = 0 then NaN else signed_inf (0 < b))"
| "num_mul PosInf PosInf = PosInf"
| "num_mul NegInf NegInf = PosInf"
| "num_mul PosInf NegInf = NegInf"
| "num_mul NegInf PosInf = NegInf"

fun num_div :: "jsnum \<Rightarrow> jsnum \<Rightarrow> jsnum" where
  "num_div NaN _ = NaN"
| "num_div _ NaN = NaN"
| "num_div (Fin a) (Fin b) =
     (if b = 0 then (if a = 0 then NaN else signed_inf (a < 0)) else to_double (a / b))"
| "num_div (Fin a) PosInf = Fin 0"
| "num_div (Fin a) NegInf = Fin 0"
| "num_div PosInf (Fin b) = signed_inf (b < 0)"
| "num_div NegInf (Fin b) = signed_inf (0 \<le> b)"
| "num_div PosInf PosInf = NaN"
| "num_div PosInf NegInf = NaN"
| "num_div NegInf PosInf = NaN"
| "num_div NegInf NegInf = NaN"

definition isFinite :: "jsnum \<Rightarrow> bool" where
  \<comment> \<open>\<open>Number.isFinite(n)\<close> for a value \<open>n\<close> of type number\<close>
  "isFinite n = (case n of Fin _ \<Rightarrow> True | _ \<Rightarrow> False)"

subsection \<open>Strings\<close>

text \<open>
  A JavaScript string is a sequence of UTF-16 code units. \<open>str\<close> turns an ASCII literal
  of the theory into such a sequence.
\<close>

type_synonym jsstring = "nat list"

definition str :: "string \<Rightarrow> jsstring" where
  "str s = map of_char s"

definition dash :: jsstring where
  \<comment> \<open>the one-character string literal of the source that marks a statistic without data: U+2014, EM DASH\<close>
  "dash = [8212]"

definition isWhiteSpace :: "nat \<Rightarrow> bool" where
  \<comment> \<open>WhiteSpace and LineTerminator of ECMAScript\<close>
  "isWhiteSpace c =
     (c \<in> {9, 10, 11, 12, 13, 32, 160, 5760, 8232, 8233, 8239, 8287, 12288, 65279}
      \<or> (8192 \<le> c \<and> c \<le> 8202))"

definition trim :: "jsstring \<Rightarrow> jsstring" where
  "trim s = rev (dropWhile isWhiteSpace (rev (dropWhile isWhiteSpace s)))"

text \<open>
  \<open>s.toLowerCase()\<close> replaces the characters of \<open>s\<close>, one after the other, by their lower-case
  mapping of Unicode. The mapping of a character may look at what stands before and after it
  (the final sigma), and it may have more than one code unit, or none for the second
  unit of a surrogate pair. The mapping is a table of the runtime, which the repository does not
  have: it is a parameter \<open>lower\<close>, and \<open>lower before c after\<close> is what the code unit \<open>c\<close> between
  \<open>before\<close> and \<open>after\<close> becomes.
\<close>

type_synonym caseMapping = "jsstring \<Rightarrow> nat \<Rightarrow> jsstring \<Rightarrow> jsstring"

fun lowerFrom :: "caseMapping \<Rightarrow> jsstring \<Rightarrow> jsstring \<Rightarrow> jsstring" where
  "lowerFrom lower before [] = []"
| "lowerFrom lower before (c # after) = lower before c after @ lowerFrom lower (before @ [c]) after"

definition toLowerCase :: "caseMapping \<Rightarrow> jsstring \<Rightarrow> jsstring" where
  "toLowerCase lower s = lowerFrom lower [] s"

fun startsWith :: "jsstring \<Rightarrow> jsstring \<Rightarrow> bool" where
  "startsWith _ [] = True"
| "startsWith [] (_ # _) = False"
| "startsWith (c # s) (d # t) = (c = d \<and> startsWith s t)"

fun includes_str :: "jsstring \<Rightarrow> jsstring \<Rightarrow> bool" where
  \<comment> \<open>\<open>s.includes(t)\<close>: \<open>t\<close> occurs in \<open>s\<close> at some position\<close>
  "includes_str [] t = (t = [])"
| "includes_str (c # s) t = (startsWith (c # s) t \<or> includes_str s t)"

subsection \<open>Numbers and strings\<close>

fun dec :: "int \<Rightarrow> jsstring" where
  \<comment> \<open>the decimal digits of a natural number, most significant first\<close>
  "dec n = (if n < 10 then [48 + nat n] else dec (n div 10) @ [48 + nat (n mod 10)])"

declare dec.simps [simp del]

definition isDigit :: "nat \<Rightarrow> bool" where
  "isDigit c = (48 \<le> c \<and> c \<le> 57)"

definition digitOf :: "nat \<Rightarrow> nat" where
  "digitOf c =
     (if 48 \<le> c \<and> c \<le> 57 then c - 48
      else if 97 \<le> c \<and> c \<le> 122 then c - 87
      else if 65 \<le> c \<and> c \<le> 90 then c - 55
      else 36)"

definition digitsValue :: "nat \<Rightarrow> jsstring \<Rightarrow> int" where
  "digitsValue radix ds = foldl (\<lambda>a c. a * int radix + int (digitOf c)) 0 ds"

definition scale10 :: "rat \<Rightarrow> int \<Rightarrow> rat" where
  \<comment> \<open>\<open>x \<sqdot> 10\<^sup>k\<close>\<close>
  "scale10 x k = (if 0 \<le> k then x * 10 ^ nat k else x / 10 ^ nat (- k))"

definition ExponentPart :: "jsstring \<Rightarrow> int option" where
  \<comment> \<open>the value of an optional exponent part; \<open>None\<close> when the text is no exponent part\<close>
  "ExponentPart s =
     (case s of
        [] \<Rightarrow> Some 0
      | c # r \<Rightarrow>
          if c = 101 \<or> c = 69 then
            (let (negative, ds) =
                   (case r of
                      [] \<Rightarrow> (False, [])
                    | d # r' \<Rightarrow> if d = 45 then (True, r') else if d = 43 then (False, r') else (False, r))
             in if ds \<noteq> [] \<and> list_all isDigit ds
                then Some (if negative then - digitsValue 10 ds else digitsValue 10 ds)
                else None)
          else None)"

definition StrUnsignedDecimalLiteral :: "jsstring \<Rightarrow> jsnum" where
  \<comment> \<open>\<open>Infinity\<close>, or digits with an optional fraction and an optional exponent\<close>
  "StrUnsignedDecimalLiteral s =
     (if s = str ''Infinity'' then PosInf
      else
        let ip = takeWhile isDigit s;
            r1 = dropWhile isDigit s;
            (fp, r2) =
              (case r1 of
                 [] \<Rightarrow> ([], [])
               | c # r \<Rightarrow> if c = 46 then (takeWhile isDigit r, dropWhile isDigit r) else ([], r1))
        in if ip = [] \<and> fp = [] then NaN
           else
             (case ExponentPart r2 of
                None \<Rightarrow> NaN
              | Some ex \<Rightarrow>
                  to_double (scale10 (of_int (digitsValue 10 (ip @ fp))) (ex - int (length fp)))))"

definition NonDecimalIntegerLiteral :: "jsstring \<Rightarrow> jsnum option" where
  \<comment> \<open>\<open>0x\<close>, \<open>0o\<close> and \<open>0b\<close> literals; \<open>None\<close> when the text has no such prefix\<close>
  "NonDecimalIntegerLiteral s =
     (case s of
        c # p # ds \<Rightarrow>
          if c = 48 \<and> p \<in> {120, 88, 111, 79, 98, 66} then
            (let radix = (if p \<in> {120, 88} then 16 else if p \<in> {111, 79} then 8 else 2)
             in Some (if ds \<noteq> [] \<and> list_all (\<lambda>d. digitOf d < radix) ds
                      then to_double (of_int (digitsValue radix ds)) else NaN))
          else None
      | _ \<Rightarrow> None)"

definition num_neg :: "jsnum \<Rightarrow> jsnum" where
  "num_neg n = (case n of NaN \<Rightarrow> NaN | PosInf \<Rightarrow> NegInf | NegInf \<Rightarrow> PosInf | Fin q \<Rightarrow> Fin (- q))"

definition StringToNumber :: "jsstring \<Rightarrow> jsnum" where
  \<comment> \<open>the conversion of a string by \<open>Number(s)\<close>: the empty or blank string is 0, a numeric
      literal between white space is its value, any other text is \<open>NaN\<close>\<close>
  "StringToNumber s =
     (let t = trim s
      in if t = [] then Fin 0
         else
           (case NonDecimalIntegerLiteral t of
              Some n \<Rightarrow> n
            | None \<Rightarrow>
                (case t of
                   [] \<Rightarrow> Fin 0
                 | c # r \<Rightarrow>
                     if c = 43 then StrUnsignedDecimalLiteral r
                     else if c = 45 then num_neg (StrUnsignedDecimalLiteral r)
                     else StrUnsignedDecimalLiteral t)))"

text \<open>
  \<open>Number::toString\<close> for a finite value of at least \<open>10\<^sup>2\<^sup>1\<close>: the shortest
  digit string \<open>s\<close> (of \<open>k\<close> digits) with \<open>s \<sqdot> 10\<^sup>n\<^sup>-\<^sup>k\<close> rounding to the value, in
  exponent notation.
\<close>

definition digitCandidate :: "rat \<Rightarrow> int \<Rightarrow> int \<Rightarrow> int option" where
  \<comment> \<open>the \<open>k\<close>-digit candidate for \<open>x\<close>, which has \<open>n\<close> digits before the point, if there is one\<close>
  "digitCandidate x n k =
     (let p = 10 ^ nat (n - k);
          lo = \<lfloor>x / of_int p\<rfloor>;
          hi = lo + 1;
          ok_lo = (to_double (of_int (lo * p)) = Fin x);
          ok_hi = (to_double (of_int (hi * p)) = Fin x);
          d_lo = x - of_int (lo * p);
          d_hi = of_int (hi * p) - x
      in if ok_lo \<and> ok_hi then Some (if d_lo < d_hi \<or> (d_lo = d_hi \<and> even lo) then lo else hi)
         else if ok_lo then Some lo
         else if ok_hi then Some hi
         else None)"

fun shortestDigits :: "rat \<Rightarrow> int \<Rightarrow> nat \<Rightarrow> int \<Rightarrow> int \<times> int" where
  \<comment> \<open>tries \<open>k\<close>, \<open>k + 1\<close>, ... (\<open>fuel\<close> more lengths); 17 digits identify any binary64 value\<close>
  "shortestDigits x n 0 k = (\<lfloor>x / of_int (10 ^ nat (n - k))\<rfloor>, k)"
| "shortestDigits x n (Suc fuel) k =
     (case digitCandidate x n k of
        Some s \<Rightarrow> (s, k)
      | None \<Rightarrow> shortestDigits x n fuel (k + 1))"

definition NumberToString_large :: "rat \<Rightarrow> jsstring" where
  "NumberToString_large x =
     (let n0 = int (length (dec \<lfloor>x\<rfloor>));
          (s, k) = shortestDigits x n0 17 1;
          (ds, n) = (if s = 10 ^ nat k then (dec 1, n0 + 1) else (dec s, n0))
      in (case ds of
            [] \<Rightarrow> []
          | d # rest \<Rightarrow>
              (if rest = [] then [d] else d # 46 # rest) @ str ''e+'' @ dec (n - 1)))"

definition toFixed1 :: "jsnum \<Rightarrow> jsstring" where
  \<comment> \<open>\<open>x.toFixed(1)\<close>: the nearest number of tenths, the larger one at a tie, written with
      one digit after the point\<close>
  "toFixed1 x =
     (case x of
        NaN \<Rightarrow> str ''NaN''
      | PosInf \<Rightarrow> str ''Infinity''
      | NegInf \<Rightarrow> str ''-Infinity''
      | Fin q \<Rightarrow>
          (let s = (if q < 0 then str ''-'' else []);
               y = \<bar>q\<bar>
           in if 10 ^ 21 \<le> y then s @ NumberToString_large y
              else
                let n = \<lfloor>y * 10 + 1 / 2\<rfloor>;
                    m = dec n;
                    m' = (if length m \<le> 1 then 48 # m else m)
                in s @ butlast m' @ [46] @ [last m']))"

subsection \<open>Values\<close>

text \<open>
  The program reads values that \<open>JSON.parse\<close> built from a response, and \<open>undefined\<close>, which
  reading a missing property gives. An object is the list of its own properties; \<open>JSON.parse\<close>
  keeps one value for a key.
\<close>

datatype json =
    JUndefined
  | JNull
  | JBool bool
  | JNum jsnum
  | JStr jsstring
  | JArr "json list"
  | JObj "(jsstring \<times> json) list"

datatype error = TypeError

definition truthy :: "json \<Rightarrow> bool" where
  \<comment> \<open>\<open>ToBoolean\<close>: what \<open>!!v\<close>, \<open>v || w\<close>, \<open>v ? a : b\<close> and \<open>filter(Boolean)\<close> test\<close>
  "truthy v =
     (case v of
        JUndefined \<Rightarrow> False
      | JNull \<Rightarrow> False
      | JBool b \<Rightarrow> b
      | JNum n \<Rightarrow> (case n of NaN \<Rightarrow> False | Fin q \<Rightarrow> q \<noteq> 0 | _ \<Rightarrow> True)
      | JStr s \<Rightarrow> s \<noteq> []
      | JArr _ \<Rightarrow> True
      | JObj _ \<Rightarrow> True)"

definition or_else :: "json \<Rightarrow> json \<Rightarrow> json" where
  \<comment> \<open>\<open>v || w\<close>\<close>
  "or_else v w = (if truthy v then v else w)"

definition isNullish :: "json \<Rightarrow> bool" where
  "isNullish v = (v = JUndefined \<or> v = JNull)"

definition opt_get :: "json \<Rightarrow> string \<Rightarrow> json" where
  \<comment> \<open>\<open>v?.key\<close>, for the keys this program reads, none of which a prototype provides\<close>
  "opt_get v key =
     (case v of
        JObj props \<Rightarrow> (case map_of props (str key) of Some w \<Rightarrow> w | None \<Rightarrow> JUndefined)
      | _ \<Rightarrow> JUndefined)"

definition get :: "json \<Rightarrow> string \<Rightarrow> error + json" where
  \<comment> \<open>\<open>v.key\<close>: reading a property of \<open>null\<close> or \<open>undefined\<close> throws\<close>
  "get v key = (if isNullish v then Inl TypeError else Inr (opt_get v key))"

text \<open>
  \<open>Number(v)\<close>. An array or an object is first turned into a string. An object from JSON gives
  \<open>[object Object]\<close>, hence \<open>NaN\<close>, unless it has a property \<open>toString\<close> of its own: that one
  is no function, and the conversion throws. An array gives its elements joined by commas,
  \<open>null\<close> and \<open>undefined\<close> as the empty string: no element gives 0, one element gives the
  number of its string (a number gives itself), and a text with a comma is no number.
\<close>

fun toStringThrows :: "json \<Rightarrow> bool" where
  "toStringThrows (JObj props) = (str ''toString'' \<in> fst ` set props)"
| "toStringThrows (JArr vs) = list_ex toStringThrows vs"
| "toStringThrows _ = False"

fun arrayToNumber :: "json list \<Rightarrow> jsnum" where
  "arrayToNumber [] = Fin 0"
| "arrayToNumber [JUndefined] = Fin 0"
| "arrayToNumber [JNull] = Fin 0"
| "arrayToNumber [JBool b] = NaN"
| "arrayToNumber [JNum n] = n"
| "arrayToNumber [JStr s] = StringToNumber s"
| "arrayToNumber [JArr vs] = arrayToNumber vs"
| "arrayToNumber [JObj props] = NaN"
| "arrayToNumber (v # w # ws) = NaN"

definition Number :: "json \<Rightarrow> error + jsnum" where
  "Number v =
     (case v of
        JUndefined \<Rightarrow> Inr NaN
      | JNull \<Rightarrow> Inr (Fin 0)
      | JBool b \<Rightarrow> Inr (if b then Fin 1 else Fin 0)
      | JNum n \<Rightarrow> Inr n
      | JStr s \<Rightarrow> Inr (StringToNumber s)
      | JArr vs \<Rightarrow> if toStringThrows v then Inl TypeError else Inr (arrayToNumber vs)
      | JObj props \<Rightarrow> if toStringThrows v then Inl TypeError else Inr NaN)"

subsection \<open>Exceptions\<close>

text \<open>A callback that throws ends \<open>map\<close> and \<open>filter\<close> at that element; the exception passes on.\<close>

fun mapE :: "('a \<Rightarrow> error + 'b) \<Rightarrow> 'a list \<Rightarrow> error + 'b list" where
  "mapE f [] = Inr []"
| "mapE f (x # xs) =
     (case f x of
        Inl e \<Rightarrow> Inl e
      | Inr y \<Rightarrow> (case mapE f xs of Inl e \<Rightarrow> Inl e | Inr ys \<Rightarrow> Inr (y # ys)))"

fun filterE :: "('a \<Rightarrow> error + bool) \<Rightarrow> 'a list \<Rightarrow> error + 'a list" where
  "filterE p [] = Inr []"
| "filterE p (x # xs) =
     (case p x of
        Inl e \<Rightarrow> Inl e
      | Inr b \<Rightarrow> (case filterE p xs of Inl e \<Rightarrow> Inl e | Inr ys \<Rightarrow> Inr (if b then x # ys else ys)))"

definition bindE :: "error + 'a \<Rightarrow> ('a \<Rightarrow> error + 'b) \<Rightarrow> error + 'b" where
  "bindE m f = (case m of Inl e \<Rightarrow> Inl e | Inr x \<Rightarrow> f x)"

section \<open>Filter Engine (App.jsx, \<open>filtered\<close>)\<close>

definition call_toLowerCase :: "caseMapping \<Rightarrow> json \<Rightarrow> error + jsstring" where
  \<comment> \<open>\<open>v.toLowerCase()\<close>: only a string has the method\<close>
  "call_toLowerCase lower v = (case v of JStr s \<Rightarrow> Inr (toLowerCase lower s) | _ \<Rightarrow> Inl TypeError)"

definition call_includes :: "json \<Rightarrow> jsstring \<Rightarrow> error + bool" where
  \<comment> \<open>\<open>v.includes(label)\<close>: an element of an array, a part of a string; no other value from
      JSON has the method\<close>
  "call_includes v label =
     (case v of
        JArr vs \<Rightarrow> Inr (JStr label \<in> set vs)
      | JStr s \<Rightarrow> Inr (includes_str s label)
      | _ \<Rightarrow> Inl TypeError)"

definition flag :: "json \<Rightarrow> string \<Rightarrow> string \<Rightarrow> error + bool" where
  \<comment> \<open>\<open>!!r.key || (r.diets || []).includes(label)\<close>\<close>
  "flag r key label =
     bindE (get r key) (\<lambda>v.
       if truthy v then Inr True
       else bindE (get r ''diets'') (\<lambda>d. call_includes (or_else d (JArr [])) (str label)))"

definition matchRecipe :: "caseMapping \<Rightarrow> jsstring \<Rightarrow> jsstring \<Rightarrow> json \<Rightarrow> error + bool" where
  \<comment> \<open>the callback of \<open>recipes.filter\<close>; \<open>q\<close> is the trimmed, lower-cased query\<close>
  "matchRecipe lower q diet r =
     bindE (get r ''title'') (\<lambda>t.
     bindE (call_toLowerCase lower (or_else t (JStr []))) (\<lambda>title.
       let matchQ = (q = [] \<or> includes_str title q)
       in if diet = str ''all'' then Inr matchQ
          else
            bindE (flag r ''vegetarian'' ''vegetarian'') (\<lambda>vegetarian.
            bindE (flag r ''vegan'' ''vegan'') (\<lambda>vegan.
            bindE (flag r ''glutenFree'' ''gluten free'') (\<lambda>glutenFree.
              let matchDiet =
                    ((diet = str ''vegetarian'' \<and> vegetarian)
                     \<or> (diet = str ''vegan'' \<and> vegan)
                     \<or> (diet = str ''glutenFree'' \<and> glutenFree))
              in Inr (matchQ \<and> matchDiet))))))"

definition filtered :: "caseMapping \<Rightarrow> json list \<Rightarrow> jsstring \<Rightarrow> jsstring \<Rightarrow> error + json list" where
  "filtered lower recipes query diet =
     (let q = toLowerCase lower (trim query) in filterE (matchRecipe lower q diet) recipes)"

subsection \<open>The contract of the Filter Engine\<close>

text \<open>
  A RecipeSummary is an object whose title is a text, whose diet flags are booleans and whose
  diets are an array of text tags; each of them may be absent (or \<open>null\<close>).
\<close>

definition isText :: "json \<Rightarrow> bool" where
  "isText v = (case v of JStr _ \<Rightarrow> True | _ \<Rightarrow> False)"

definition isBoolean :: "json \<Rightarrow> bool" where
  "isBoolean v = (case v of JBool _ \<Rightarrow> True | _ \<Rightarrow> False)"

definition isTags :: "json \<Rightarrow> bool" where
  "isTags v = (case v of JArr vs \<Rightarrow> list_all isText vs | _ \<Rightarrow> False)"

definition RecipeSummary :: "json \<Rightarrow> bool" where
  "RecipeSummary r =
     ((case r of JObj _ \<Rightarrow> True | _ \<Rightarrow> False)
      \<and> (isNullish (opt_get r ''title'') \<or> isText (opt_get r ''title''))
      \<and> (isNullish (opt_get r ''vegetarian'') \<or> isBoolean (opt_get r ''vegetarian''))
      \<and> (isNullish (opt_get r ''vegan'') \<or> isBoolean (opt_get r ''vegan''))
      \<and> (isNullish (opt_get r ''glutenFree'') \<or> isBoolean (opt_get r ''glutenFree''))
      \<and> (isNullish (opt_get r ''diets'') \<or> isTags (opt_get r ''diets'')))"

datatype dietSelector = All | Vegetarian | Vegan | GlutenFree

fun selector :: "dietSelector \<Rightarrow> jsstring" where
  \<comment> \<open>the values of the options of the diet select\<close>
  "selector All = str ''all''"
| "selector Vegetarian = str ''vegetarian''"
| "selector Vegan = str ''vegan''"
| "selector GlutenFree = str ''glutenFree''"

definition title_of :: "json \<Rightarrow> jsstring" where
  "title_of r = (case opt_get r ''title'' of JStr s \<Rightarrow> s | _ \<Rightarrow> [])"

definition text_predicate :: "caseMapping \<Rightarrow> jsstring \<Rightarrow> json \<Rightarrow> bool" where
  \<comment> \<open>the trimmed, lower-cased query is empty, or is a substring of the lower-cased title\<close>
  "text_predicate lower query r =
     (toLowerCase lower (trim query) = []
      \<or> sublist (toLowerCase lower (trim query)) (toLowerCase lower (title_of r)))"

definition flag_true :: "json \<Rightarrow> string \<Rightarrow> bool" where
  "flag_true r key = (opt_get r key = JBool True)"

definition has_tag :: "json \<Rightarrow> string \<Rightarrow> bool" where
  "has_tag r label =
     (case opt_get r ''diets'' of JArr tags \<Rightarrow> JStr (str label) \<in> set tags | _ \<Rightarrow> False)"

fun diet_predicate :: "dietSelector \<Rightarrow> json \<Rightarrow> bool" where
  "diet_predicate All r = True"
| "diet_predicate Vegetarian r = (flag_true r ''vegetarian'' \<or> has_tag r ''vegetarian'')"
| "diet_predicate Vegan r = (flag_true r ''vegan'' \<or> has_tag r ''vegan'')"
| "diet_predicate GlutenFree r = (flag_true r ''glutenFree'' \<or> has_tag r ''gluten free'')"

section \<open>Statistics Aggregator (App.jsx, \<open>stats\<close>)\<close>

record summary =
  total :: nat
  avgReady :: json
  medianHS :: json
  cuisines :: json

definition finiteValue :: "jsnum \<Rightarrow> rat" where
  \<comment> \<open>the value of a finite number\<close>
  "finiteValue n = (case n of Fin q \<Rightarrow> q | _ \<Rightarrow> 0)"

definition finiteNumbers :: "string \<Rightarrow> json list \<Rightarrow> error + jsnum list" where
  \<comment> \<open>\<open>filtered.map(r => Number(r.key)).filter(n => Number.isFinite(n))\<close>\<close>
  "finiteNumbers key rs =
     bindE (mapE (\<lambda>r. bindE (get r key) Number) rs) (\<lambda>ns. Inr (filter isFinite ns))"

definition ready :: "json list \<Rightarrow> error + jsnum list" where
  "ready rs = finiteNumbers ''readyInMinutes'' rs"

definition avgReady_of :: "jsnum list \<Rightarrow> json" where
  \<comment> \<open>\<open>ready.length ? (ready.reduce((a, b) => a + b, 0) / ready.length).toFixed(1) : dash\<close>\<close>
  "avgReady_of ns =
     (if length ns \<noteq> 0
      then JStr (toFixed1 (num_div (foldl num_add (Fin 0) ns) (Fin (of_nat (length ns)))))
      else JStr dash)"

definition hs :: "json list \<Rightarrow> error + jsnum list" where
  \<comment> \<open>\<open>sort((a, b) => a - b)\<close> puts finite numbers in ascending order\<close>
  "hs rs = bindE (finiteNumbers ''healthScore'' rs) (\<lambda>ns. Inr (sort_key finiteValue ns))"

definition medianHS_of :: "jsnum list \<Rightarrow> json" where
  "medianHS_of ns =
     (if length ns \<noteq> 0
      then (if length ns mod 2 \<noteq> 0
            then JNum (ns ! ((length ns - 1) div 2))
            else JStr (toFixed1
                   (num_div (num_add (ns ! (length ns div 2 - 1)) (ns ! (length ns div 2))) (Fin 2))))
      else JStr dash)"

definition isPrimitive :: "json \<Rightarrow> bool" where
  "isPrimitive v = (case v of JArr _ \<Rightarrow> False | JObj _ \<Rightarrow> False | _ \<Rightarrow> True)"

definition setSize :: "json list \<Rightarrow> nat" where
  \<comment> \<open>\<open>new Set(vs).size\<close>: equal primitive values count once; every array and object of a
      response is a value of its own\<close>
  "setSize vs = length (remdups (filter isPrimitive vs)) + length (filter (\<lambda>v. \<not> isPrimitive v) vs)"

definition cuisines_of :: "json list \<Rightarrow> error + json" where
  \<comment> \<open>\<open>new Set(filtered.flatMap(r => Array.isArray(r.cuisines) ? r.cuisines : [])
      .filter(Boolean)).size || dash\<close>\<close>
  "cuisines_of rs =
     bindE (mapE (\<lambda>r. bindE (get r ''cuisines'')
                    (\<lambda>c. Inr (case c of JArr vs \<Rightarrow> vs | _ \<Rightarrow> []))) rs) (\<lambda>vss.
       let n = setSize (filter truthy (concat vss))
       in Inr (if n \<noteq> 0 then JNum (Fin (of_nat n)) else JStr dash))"

definition stats :: "json list \<Rightarrow> error + summary" where
  "stats rs =
     bindE (ready rs) (\<lambda>rd.
     bindE (hs rs) (\<lambda>h.
     bindE (cuisines_of rs) (\<lambda>c.
       Inr \<lparr>total = length rs, avgReady = avgReady_of rd, medianHS = medianHS_of h, cuisines = c\<rparr>)))"

subsection \<open>The health scores of the contract\<close>

text \<open>
  The health score of a RecipeSummary is a number or is absent; the median is taken over the
  finite ones.
\<close>

definition isNumber :: "json \<Rightarrow> bool" where
  "isNumber v = (case v of JNum _ \<Rightarrow> True | _ \<Rightarrow> False)"

definition oneDecimal :: "jsstring \<Rightarrow> bool" where
  \<comment> \<open>digits, a point and one digit, after a minus sign or without one\<close>
  "oneDecimal s =
     (case rev (case s of [] \<Rightarrow> [] | c # r \<Rightarrow> if c = 45 then r else s) of
        d # p # ds \<Rightarrow> isDigit d \<and> p = 46 \<and> ds \<noteq> [] \<and> list_all isDigit ds
      | _ \<Rightarrow> False)"

definition healthScores :: "json list \<Rightarrow> rat list" where
  "healthScores rs = [q. r \<leftarrow> rs, JNum (Fin q) \<leftarrow> [opt_get r ''healthScore'']]"

section \<open>Nutrition Series Builder (RecipeDetail.jsx, \<open>NutritionCharts\<close>)\<close>

definition nutrients :: "json \<Rightarrow> json list" where
  \<comment> \<open>\<open>Array.isArray(nutrition?.nutrients) ? nutrition.nutrients : []\<close>\<close>
  "nutrients nutrition = (case opt_get nutrition ''nutrients'' of JArr vs \<Rightarrow> vs | _ \<Rightarrow> [])"

record found =
  amount :: jsnum
  unit :: json

definition find_nutrient :: "json list \<Rightarrow> string \<Rightarrow> string \<Rightarrow> error + found" where
  \<comment> \<open>\<open>find(name, fallbackUnit)\<close>; \<open>nutrients.find\<close> gives the first match, or \<open>undefined\<close>\<close>
  "find_nutrient ns name fallbackUnit =
     (let n = (case List.find (\<lambda>x. opt_get x ''name'' = JStr (str name)) ns of
                 Some x \<Rightarrow> x
               | None \<Rightarrow> JUndefined)
      in bindE (if truthy n then bindE (get n ''amount'') Number else Inr (Fin 0)) (\<lambda>a.
           Inr \<lparr>amount = a, unit = or_else (opt_get n ''unit'') (JStr (str fallbackUnit))\<rparr>))"

definition BAR_KEYS :: "string list" where
  "BAR_KEYS = [''Calories'', ''Protein'', ''Fat'', ''Carbohydrates'', ''Fiber'', ''Sugar'']"

definition slice :: "string \<Rightarrow> jsnum \<Rightarrow> json" where
  \<comment> \<open>\<open>{ name: ..., value: ... }\<close>\<close>
  "slice nm v = JObj [(str ''name'', JStr (str nm)), (str ''value'', JNum v)]"

definition bar :: "string \<Rightarrow> jsnum \<Rightarrow> json \<Rightarrow> json" where
  \<comment> \<open>\<open>{ name: k, amount, unit }\<close>\<close>
  "bar k a u = JObj [(str ''name'', JStr (str k)), (str ''amount'', JNum a), (str ''unit'', u)]"

record charts =
  donutData :: json
  barData :: json

definition NutritionCharts :: "json \<Rightarrow> error + charts" where
  "NutritionCharts nutrition =
     (let ns = nutrients nutrition
      in bindE (find_nutrient ns ''Protein'' ''g'') (\<lambda>protein.
         bindE (find_nutrient ns ''Fat'' ''g'') (\<lambda>fat.
         bindE (find_nutrient ns ''Carbohydrates'' ''g'') (\<lambda>carbs.
         bindE (mapE (\<lambda>k. bindE (find_nutrient ns k (if k = ''Calories'' then ''kcal'' else ''g''))
                            (\<lambda>f. Inr (bar k (amount f) (unit f)))) BAR_KEYS) (\<lambda>bars.
           Inr \<lparr>donutData =
                  JArr [slice ''Protein'' (num_mul (amount protein) (Fin 4)),
                        slice ''Fat'' (num_mul (amount fat) (Fin 9)),
                        slice ''Carbs'' (num_mul (amount carbs) (Fin 4))],
                barData = JArr bars\<rparr>)))))"

subsection \<open>The NutritionRecord of the contract\<close>

text \<open>
  A NutritionRecord maps a nutrient name to an amount and a unit, which the source record may
  omit. In a response it is the array \<open>nutrients\<close> of objects with the properties \<open>name\<close>,
  \<open>amount\<close> and \<open>unit\<close>; a lookup takes the first entry of a name.
\<close>

type_synonym NutritionRecord = "(jsstring \<times> jsnum \<times> jsstring option) list"

definition nutrient_json :: "jsstring \<times> jsnum \<times> jsstring option \<Rightarrow> json" where
  "nutrient_json e =
     (case e of (nm, a, u) \<Rightarrow>
        JObj ([(str ''name'', JStr nm), (str ''amount'', JNum a)]
              @ (case u of None \<Rightarrow> [] | Some t \<Rightarrow> [(str ''unit'', JStr t)])))"

definition nutrition_json :: "NutritionRecord \<Rightarrow> json" where
  "nutrition_json nr = JObj [(str ''nutrients'', JArr (map nutrient_json nr))]"

definition amount_of :: "NutritionRecord \<Rightarrow> string \<Rightarrow> jsnum" where
  \<comment> \<open>an absent nutrient is treated as amount 0\<close>
  "amount_of nr k = (case map_of nr (str k) of None \<Rightarrow> Fin 0 | Some (a, u) \<Rightarrow> a)"

definition kcal_of :: "NutritionRecord \<Rightarrow> string \<Rightarrow> rat \<Rightarrow> jsnum" where
  \<comment> \<open>the grams of a nutrient times the factor; 0 for an absent nutrient\<close>
  "kcal_of nr k factor =
     (case map_of nr (str k) of None \<Rightarrow> Fin 0 | Some (a, u) \<Rightarrow> num_mul a (Fin factor))"

definition default_unit :: "string \<Rightarrow> jsstring" where
  "default_unit k = (if k = ''Calories'' then str ''kcal'' else str ''g'')"

definition macro_split :: "NutritionRecord \<Rightarrow> json list" where
  "macro_split nr =
     [slice ''Protein'' (kcal_of nr ''Protein'' 4),
      slice ''Fat'' (kcal_of nr ''Fat'' 9),
      slice ''Carbs'' (kcal_of nr ''Carbohydrates'' 4)]"

definition key_nutrient :: "NutritionRecord \<Rightarrow> string \<Rightarrow> json" where
  "key_nutrient nr k =
     (case map_of nr (str k) of
        None \<Rightarrow> bar k (Fin 0) (JStr (default_unit k))
      | Some (a, None) \<Rightarrow> bar k a (JStr (default_unit k))
      | Some (a, Some t) \<Rightarrow> bar k a (JStr (if t = [] then default_unit k else t)))"

section \<open>Text Sanitizer (RecipeDetail.jsx and DetailView.jsx, \<open>stripHtml\<close>)\<close>

text \<open>
  \<open>stripHtml\<close> hands the text to the browser: assigning to \<open>innerHTML\<close> of a new \<open>div\<close>
  converts the value to a string and parses it as an HTML fragment. The setter is a parameter
  of the model; it gives the children of the \<open>div\<close>. The attributes of an element play no
  part in what is read back.
\<close>

datatype node = Text jsstring | Comment jsstring | Element jsstring "node list"

fun descendantText :: "node \<Rightarrow> jsstring" where
  "descendantText (Text d) = d"
| "descendantText (Comment d) = []"
| "descendantText (Element tag children) = concat (map descendantText children)"

definition textContent :: "node list \<Rightarrow> jsstring" where
  \<comment> \<open>\<open>el.textContent\<close> of an element with these children\<close>
  "textContent children = concat (map descendantText children)"

definition innerText :: "node list \<Rightarrow> jsstring" where
  \<comment> \<open>\<open>el.innerText\<close> of an element that is not rendered (the \<open>div\<close> is never put into the
      document) is its \<open>textContent\<close>\<close>
  "innerText children = textContent children"

definition stripHtml :: "(json \<Rightarrow> error + node list) \<Rightarrow> json \<Rightarrow> error + jsstring" where
  "stripHtml setInnerHTML html =
     bindE (setInnerHTML (or_else html (JStr []))) (\<lambda>children.
       Inr (if textContent children \<noteq> [] then textContent children
            else if innerText children \<noteq> [] then innerText children
            else []))"

fun textNodes :: "node \<Rightarrow> jsstring list" where
  \<comment> \<open>the text nodes below a node, in document order\<close>
  "textNodes (Text d) = [d]"
| "textNodes (Comment d) = []"
| "textNodes (Element tag children) = concat (map textNodes children)"

section \<open>Example data\<close>

text \<open>The two recipes of the end-to-end scenario.\<close>

definition vegan_tacos :: json where
  "vegan_tacos =
     JObj [(str ''id'', JNum (Fin 1)), (str ''title'', JStr (str ''Vegan Tacos'')),
           (str ''vegan'', JBool True), (str ''readyInMinutes'', JNum (Fin 20)),
           (str ''healthScore'', JNum (Fin 80)), (str ''cuisines'', JArr [JStr (str ''Mexican'')])]"

definition beef_stew :: json where
  "beef_stew =
     JObj [(str ''id'', JNum (Fin 2)), (str ''title'', JStr (str ''Beef Stew'')),
           (str ''vegan'', JBool False), (str ''diets'', JArr [JStr (str ''gluten free'')]),
           (str ''readyInMinutes'', JNum (Fin 90)), (str ''healthScore'', JNum (Fin 40))]"

text \<open>
  The lower-case mapping of the letters A to Z of Basic Latin and of the Cyrillic letters U+0410
  to U+042F: the letter 32 places on, with no context rule. It is the case mapping of the
  examples, whose texts have no other upper-case letter.
\<close>

definition exampleLower :: caseMapping where
  "exampleLower before c after =
     (if (65 \<le> c \<and> c \<le> 90) \<or> (1040 \<le> c \<and> c \<le> 1071) then [c + 32] else [c])"

text \<open>A recipe with a Cyrillic title, and the title in upper case and in lower case.\<close>

definition borscht_upper :: jsstring where
  "borscht_upper = [1041, 1054, 1056, 1065]"

definition borscht_lower :: jsstring where
  "borscht_lower = [1073, 1086, 1088, 1097]"

definition borscht :: json where
  "borscht =
     JObj [(str ''id'', JNum (Fin 5)), (str ''title'', JStr [1041, 1086, 1088, 1097]),
           (str ''vegetarian'', JBool True)]"

text \<open>Recipes with a health score only, and two recipes of which one has no ready time.\<close>

definition score :: "rat \<Rightarrow> json" where
  "score q = JObj [(str ''healthScore'', JNum (Fin q))]"

definition scores_even :: "json list" where
  "scores_even = [score 10, score 20, score 30, score 40]"

definition scores_odd :: "json list" where
  "scores_odd = [score 10, score 20, score 30]"

definition no_time :: json where
  "no_time =
     JObj [(str ''id'', JNum (Fin 3)), (str ''title'', JStr (str ''Mystery Dish'')),
           (str ''readyInMinutes'', JNull), (str ''healthScore'', JNum (Fin 80))]"

definition half_hour :: json where
  "half_hour =
     JObj [(str ''id'', JNum (Fin 4)), (str ''title'', JStr (str ''Quick Soup'')),
           (str ''readyInMinutes'', JNum (Fin 30)), (str ''healthScore'', JNum (Fin 80))]"

text \<open>Nutrition records.\<close>

definition macros_example :: NutritionRecord where
  "macros_example =
     [(str ''Calories'', Fin 305, Some (str ''kcal'')), (str ''Protein'', Fin 10, Some (str ''g'')),
      (str ''Fat'', Fin 5, Some (str ''g'')), (str ''Carbohydrates'', Fin 20, None),
      (str ''fiber'', Fin 3, Some (str ''g''))]"

definition fiber_null :: json where
  "fiber_null =
     JObj [(str ''nutrients'',
            JArr [JObj [(str ''name'', JStr (str ''Fiber'')), (str ''amount'', JNull),
                        (str ''unit'', JStr (str ''g''))],
                  JObj [(str ''name'', JStr (str ''Sugar''))],
                  JObj [(str ''name'', JStr (str ''Calories'')), (str ''amount'', JStr (str ''n/a''))]])]"

definition fiber_null_charts :: charts where
  "fiber_null_charts =
     \<lparr>donutData = JArr [slice ''Protein'' (Fin 0), slice ''Fat'' (Fin 0), slice ''Carbs'' (Fin 0)],
      barData =
        JArr [bar ''Calories'' NaN (JStr (str ''kcal'')), bar ''Protein'' (Fin 0) (JStr (str ''g'')),
              bar ''Fat'' (Fin 0) (JStr (str ''g'')), bar ''Carbohydrates'' (Fin 0) (JStr (str ''g'')),
              bar ''Fiber'' (Fin 0) (JStr (str ''g'')), bar ''Sugar'' NaN (JStr (str ''g''))]\<rparr>"

text \<open>A document, its nodes, and a setter of \<open>innerHTML\<close> that knows this document.\<close>

definition hello_world :: jsstring where
  "hello_world = str ''<p>Hello <b>World</b></p>''"

definition hello_world_nodes :: "node list" where
  "hello_world_nodes =
     [Element (str ''p'') [Text (str ''Hello ''), Element (str ''b'') [Text (str ''World'')]]]"

definition demo_setter :: "json \<Rightarrow> error + node list" where
  "demo_setter v = (if v = JStr hello_world then Inr hello_world_nodes else Inr [])"

section \<open>Properties of the values\<close>

lemma str_eq_iff [simp]: "str a = str b \<longleftrightarrow> a = b"
  by (auto simp: str_def list_eq_iff_nth_eq)

lemma str_Nil_iff [simp]: "str s = [] \<longleftrightarrow> s = []" "[] = str s \<longleftrightarrow> s = []"
  by (auto simp: str_def)

lemma bindE_Inr [simp]: "bindE (Inr x) f = f x"
  by (simp add: bindE_def)

lemma bindE_Inl [simp]: "bindE (Inl e) f = Inl e"
  by (simp add: bindE_def)

lemma startsWith_prefix: "startsWith s t \<longleftrightarrow> prefix t s"
  by (induction s t rule: startsWith.induct) auto

lemma includes_str_sublist: "includes_str s t \<longleftrightarrow> sublist t s"
proof (induction s)
  case Nil
  show ?case by simp
next
  case (Cons c s)
  show ?case
  proof (cases t)
    case Nil
    then show ?thesis by simp
  next
    case (Cons d t')
    then show ?thesis
      using Cons.IH by (simp add: startsWith_prefix sublist_Cons_right del: startsWith.simps)
  qed
qed

subsection \<open>Rounding\<close>

text \<open>
  \<open>ilog2\<close> is the binary exponent of a number, and an integer of at most 53 bits is a binary64
  value: rounding keeps it, so that sums and products of such integers are exact as long as
  they stay below \<open>2\<^sup>5\<^sup>3\<close>.
\<close>

lemma to_double_zero [simp]: "to_double 0 = Fin 0"
  by (simp add: to_double_def)

lemma ilog2_bounds:
  assumes "q \<noteq> 0"
  shows "2 powi ilog2 q \<le> \<bar>q\<bar> \<and> \<bar>q\<bar> < 2 powi (ilog2 q + 1)"
proof (cases "1 \<le> \<bar>q\<bar>")
  case True
  let ?n = "\<lfloor>\<bar>q\<bar>\<rfloor>"
  from True have n: "0 < ?n" by simp
  then have b: "1 \<le> bitlen ?n"
    using bitlen_eq_zero_iff [of ?n] bitlen_nonneg [of ?n] by linarith
  from bitlen_bounds [OF n] have lo: "2 ^ nat (bitlen ?n - 1) \<le> ?n" and hi: "?n < 2 ^ nat (bitlen ?n)"
    by simp_all
  have "(2::rat) powi (bitlen ?n - 1) = 2 ^ nat (bitlen ?n - 1)"
    using b by (simp add: power_int_def)
  also have "\<dots> = of_int (2 ^ nat (bitlen ?n - 1))" by simp
  also have "\<dots> \<le> of_int ?n" using lo by (simp only: of_int_le_iff)
  also have "\<dots> \<le> \<bar>q\<bar>" by simp
  finally have 1: "2 powi (bitlen ?n - 1) \<le> \<bar>q\<bar>" .
  from hi have c: "?n + 1 \<le> 2 ^ nat (bitlen ?n)" by simp
  have "\<bar>q\<bar> < of_int (?n + 1)" by linarith
  also from c have "\<dots> \<le> (of_int (2 ^ nat (bitlen ?n)) :: rat)" by (simp only: of_int_le_iff)
  also have "\<dots> = 2 ^ nat (bitlen ?n)" by simp
  also have "\<dots> = 2 powi (bitlen ?n - 1 + 1)"
    using b by (simp add: power_int_def)
  finally show ?thesis using 1 True by (simp add: ilog2_def)
next
  case False
  let ?r = "1 / \<bar>q\<bar>"
  let ?m = "\<lceil>?r\<rceil> - 1"
  from False assms have q: "0 < \<bar>q\<bar>" "\<bar>q\<bar> < 1" by simp_all
  then have r: "1 < ?r" by simp
  then have m: "0 < ?m" by simp
  then have b: "1 \<le> bitlen ?m"
    using bitlen_eq_zero_iff [of ?m] bitlen_nonneg [of ?m] by linarith
  from bitlen_bounds [OF m] have lo: "2 ^ nat (bitlen ?m - 1) \<le> ?m" and hi: "?m < 2 ^ nat (bitlen ?m)"
    by simp_all
  from hi have c: "\<lceil>?r\<rceil> \<le> 2 ^ nat (bitlen ?m)" by simp
  have "?r \<le> of_int \<lceil>?r\<rceil>" by (rule le_of_int_ceiling)
  also from c have "\<dots> \<le> (of_int (2 ^ nat (bitlen ?m)) :: rat)" by (simp only: of_int_le_iff)
  also have "\<dots> = 2 ^ nat (bitlen ?m)" by simp
  finally have "?r \<le> 2 ^ nat (bitlen ?m)" .
  with q have "1 / 2 ^ nat (bitlen ?m) \<le> \<bar>q\<bar>"
    by (simp add: field_simps)
  moreover have "(2::rat) powi (- bitlen ?m) = 1 / 2 ^ nat (bitlen ?m)"
    using b by (simp add: power_int_def field_simps)
  ultimately have 1: "2 powi (- bitlen ?m) \<le> \<bar>q\<bar>" by simp
  have "(2::rat) ^ nat (bitlen ?m - 1) = of_int (2 ^ nat (bitlen ?m - 1))" by simp
  also have "\<dots> \<le> of_int ?m" using lo by (simp only: of_int_le_iff)
  also have "\<dots> < ?r" by linarith
  finally have "2 ^ nat (bitlen ?m - 1) < ?r" .
  with q have "\<bar>q\<bar> < 1 / 2 ^ nat (bitlen ?m - 1)"
    by (simp add: field_simps)
  moreover have "(2::rat) powi (- bitlen ?m + 1) = 1 / 2 ^ nat (bitlen ?m - 1)"
  proof -
    have "- bitlen ?m + 1 = - (bitlen ?m - 1)" by simp
    moreover have "0 \<le> bitlen ?m - 1" using b by simp
    ultimately show ?thesis by (simp add: power_int_def field_simps)
  qed
  ultimately have "\<bar>q\<bar> < 2 powi (- bitlen ?m + 1)" by simp
  with 1 False show ?thesis by (simp add: ilog2_def)
qed

lemma round_half_even_of_int [simp]: "round_half_even (of_int z) = z"
  by (simp add: round_half_even_def)

lemma to_double_of_int:
  assumes "\<bar>n\<bar> \<le> 2 ^ 53"
  shows "to_double (of_int n) = Fin (of_int n)"
proof (cases "n = 0")
  case True
  then show ?thesis by (simp add: to_double_def)
next
  case False
  let ?q = "of_int n :: rat"
  let ?e = "ilog2 ?q"
  from False have q: "?q \<noteq> 0" "1 \<le> \<bar>?q\<bar>"
    by simp_all
  from ilog2_bounds [OF q(1)] have lo: "2 powi ?e \<le> \<bar>?q\<bar>" and hi: "\<bar>?q\<bar> < 2 powi (?e + 1)"
    by simp_all
  have e0: "0 \<le> ?e"
  proof (rule ccontr)
    assume "\<not> 0 \<le> ?e"
    then have "?e + 1 \<le> 0" by simp
    then have "(2::rat) powi (?e + 1) \<le> 1"
      by (simp add: power_int_def field_simps)
    with hi q(2) show False by simp
  qed
  from assms have ub: "\<bar>?q\<bar> \<le> 2 ^ 53"
    by (metis of_int_abs of_int_le_iff of_int_numeral of_int_power)
  have e53: "?e \<le> 53"
  proof (rule ccontr)
    assume "\<not> ?e \<le> 53"
    then have "54 \<le> ?e" by simp
    then have "(2::rat) powi 54 \<le> 2 powi ?e"
      by (intro power_int_increasing) simp_all
    with lo ub show False by (simp add: power_int_def)
  qed
  have v: "scale2 (of_int (round_half_even (scale2 \<bar>?q\<bar> (52 - ?e)))) (?e - 52) = \<bar>?q\<bar>"
  proof (cases "?e \<le> 52")
    case True
    then have "scale2 \<bar>?q\<bar> (52 - ?e) = of_int (\<bar>n\<bar> * 2 ^ nat (52 - ?e))"
      by (simp add: scale2_def)
    then have "round_half_even (scale2 \<bar>?q\<bar> (52 - ?e)) = \<bar>n\<bar> * 2 ^ nat (52 - ?e)"
      by (simp only: round_half_even_of_int)
    moreover have "scale2 (of_int (\<bar>n\<bar> * 2 ^ nat (52 - ?e))) (?e - 52) = \<bar>?q\<bar>"
      using True by (cases "?e = 52") (simp_all add: scale2_def)
    ultimately show ?thesis by simp
  next
    case False
    with e53 have e: "?e = 53" by simp
    with lo ub have "\<bar>?q\<bar> = 2 ^ 53" by (simp add: power_int_def)
    with e show ?thesis
      using round_half_even_of_int [of "2 ^ 52"] by (simp add: scale2_def)
  qed
  have "\<not> (2::rat) ^ 1024 \<le> \<bar>?q\<bar>"
    using ub by simp
  with q(1) v e0 show ?thesis
    by (simp add: to_double_def Let_def max_def abs_if split: if_splits)
qed

lemma num_mul_of_int:
  assumes "\<bar>m * n\<bar> \<le> 2 ^ 53"
  shows "num_mul (Fin (of_int m)) (Fin (of_int n)) = Fin (of_int (m * n))"
  using to_double_of_int [OF assms] by simp

lemma num_add_of_int:
  assumes "\<bar>m + n\<bar> \<le> 2 ^ 53"
  shows "num_add (Fin (of_int m)) (Fin (of_int n)) = Fin (of_int (m + n))"
  using to_double_of_int [OF assms] by simp

text \<open>Evaluation of the rounding at a numeral.\<close>

lemma floor_rat_numeral [simp]:
  "\<lfloor>(numeral a :: rat) / numeral b\<rfloor> = numeral a div numeral b"
  using floor_divide_of_int_eq [of "numeral a" "numeral b", where ?'a = rat] by simp

lemma ceiling_rat_numeral [simp]:
  "\<lceil>(numeral a :: rat) / numeral b\<rceil> = - ((- numeral a) div numeral b)"
  using floor_divide_of_int_eq [of "- numeral a" "numeral b", where ?'a = rat]
  by (simp add: ceiling_def)

lemmas double_eval = to_double_def ilog2_def round_half_even_def Let_def compute_bitlen scale2_def

section \<open>Properties of the Filter Engine\<close>

lemma get_object: "get (JObj props) key = Inr (opt_get (JObj props) key)"
  by (simp add: get_def isNullish_def)

lemma title_lower:
  assumes "isNullish (opt_get r ''title'') \<or> isText (opt_get r ''title'')"
  shows "call_toLowerCase lower (or_else (opt_get r ''title'') (JStr []))
         = Inr (toLowerCase lower (title_of r))"
  using assms
  by (cases "opt_get r ''title''")
     (auto simp: isNullish_def isText_def or_else_def truthy_def call_toLowerCase_def title_of_def
        toLowerCase_def)

lemma flag_contract:
  assumes "isNullish (opt_get (JObj props) key) \<or> isBoolean (opt_get (JObj props) key)"
    and "isNullish (opt_get (JObj props) ''diets'') \<or> isTags (opt_get (JObj props) ''diets'')"
  shows "flag (JObj props) key label
         = Inr (flag_true (JObj props) key \<or> has_tag (JObj props) label)"
proof (cases "opt_get (JObj props) key = JBool True")
  case True
  then show ?thesis
    by (simp add: flag_def get_object truthy_def flag_true_def)
next
  case False
  with assms(1) have nt: "\<not> truthy (opt_get (JObj props) key)"
    by (cases "opt_get (JObj props) key") (auto simp: isNullish_def isBoolean_def truthy_def)
  from assms(2) have "call_includes (or_else (opt_get (JObj props) ''diets'') (JArr [])) (str label)
      = Inr (has_tag (JObj props) label)"
    by (cases "opt_get (JObj props) ''diets''")
       (auto simp: isNullish_def isTags_def or_else_def truthy_def call_includes_def has_tag_def)
  with nt False show ?thesis
    by (simp add: flag_def get_object flag_true_def)
qed

lemma matchRecipe_contract:
  assumes "RecipeSummary r"
  shows "matchRecipe lower q diet r =
    Inr ((q = [] \<or> sublist q (toLowerCase lower (title_of r)))
         \<and> (diet = str ''all''
            \<or> (diet = str ''vegetarian'' \<and> (flag_true r ''vegetarian'' \<or> has_tag r ''vegetarian''))
            \<or> (diet = str ''vegan'' \<and> (flag_true r ''vegan'' \<or> has_tag r ''vegan''))
            \<or> (diet = str ''glutenFree'' \<and> (flag_true r ''glutenFree'' \<or> has_tag r ''gluten free''))))"
proof -
  from assms obtain props where r: "r = JObj props"
    by (cases r) (auto simp: RecipeSummary_def)
  from assms have t: "call_toLowerCase lower (or_else (opt_get (JObj props) ''title'') (JStr []))
      = Inr (toLowerCase lower (title_of (JObj props)))"
    unfolding r by (intro title_lower) (simp add: RecipeSummary_def)
  from assms have f1: "flag (JObj props) ''vegetarian'' ''vegetarian''
      = Inr (flag_true (JObj props) ''vegetarian'' \<or> has_tag (JObj props) ''vegetarian'')"
    and f2: "flag (JObj props) ''vegan'' ''vegan''
      = Inr (flag_true (JObj props) ''vegan'' \<or> has_tag (JObj props) ''vegan'')"
    and f3: "flag (JObj props) ''glutenFree'' ''gluten free''
      = Inr (flag_true (JObj props) ''glutenFree'' \<or> has_tag (JObj props) ''gluten free'')"
    unfolding r by (simp_all add: RecipeSummary_def flag_contract)
  show ?thesis
    unfolding r matchRecipe_def
    by (auto simp add: get_object t f1 f2 f3 Let_def includes_str_sublist)
qed

lemma filterE_total:
  assumes "\<And>x. x \<in> set xs \<Longrightarrow> p x = Inr (P x)"
  shows "filterE p xs = Inr (filter P xs)"
  using assms by (induction xs) auto

text \<open>
  Claim C3. For every list of RecipeSummary records and every FilterCriteria, the Filter Engine
  returns exactly the items that satisfy both the text predicate and the diet predicate, in
  their original order and without duplication: a subsequence of the input. This holds whatever
  the lower-case mapping of the runtime is.
\<close>

theorem filter_engine_contract:
  assumes "list_all RecipeSummary recipes"
  shows "filtered lower recipes query (selector d)
           = Inr (filter (\<lambda>r. text_predicate lower query r \<and> diet_predicate d r) recipes)
         \<and> subseq (filter (\<lambda>r. text_predicate lower query r \<and> diet_predicate d r) recipes) recipes"
proof
  have "matchRecipe lower (toLowerCase lower (trim query)) (selector d) r
        = Inr (text_predicate lower query r \<and> diet_predicate d r)" if "r \<in> set recipes" for r
  proof -
    from that assms have "RecipeSummary r"
      by (simp add: list_all_iff)
    then show ?thesis
      by (cases d) (simp_all add: matchRecipe_contract text_predicate_def)
  qed
  then show "filtered lower recipes query (selector d)
      = Inr (filter (\<lambda>r. text_predicate lower query r \<and> diet_predicate d r) recipes)"
    by (simp add: filtered_def filterE_total)
  show "subseq (filter (\<lambda>r. text_predicate lower query r \<and> diet_predicate d r) recipes) recipes"
    by simp
qed

lemma recipes_wf: "list_all RecipeSummary [vegan_tacos, beef_stew]"
  by (simp add: RecipeSummary_def vegan_tacos_def beef_stew_def opt_get_def isNullish_def
      isText_def isBoolean_def isTags_def)

lemma tacos_query: "toLowerCase exampleLower (trim (str '' TACOS '')) = str ''tacos''"
  by (simp add: str_def trim_def toLowerCase_def isWhiteSpace_def exampleLower_def)

lemma titles_lower:
  "toLowerCase exampleLower (title_of vegan_tacos) = str ''vegan tacos''"
  "toLowerCase exampleLower (title_of beef_stew) = str ''beef stew''"
  by (simp_all add: vegan_tacos_def beef_stew_def title_of_def opt_get_def str_def toLowerCase_def
      exampleLower_def)

lemma tacos_match:
  "sublist (str ''tacos'') (str ''vegan tacos'')" "\<not> sublist (str ''tacos'') (str ''beef stew'')"
  by (simp_all add: str_def sublist_code)

lemma borscht_wf: "list_all RecipeSummary [beef_stew, borscht]"
  by (simp add: RecipeSummary_def borscht_def beef_stew_def opt_get_def isNullish_def
      isText_def isBoolean_def isTags_def)

lemma borscht_query:
  "toLowerCase exampleLower (trim borscht_upper) = borscht_lower"
  "toLowerCase exampleLower (title_of borscht) = borscht_lower"
  by (simp_all add: borscht_upper_def borscht_lower_def borscht_def title_of_def opt_get_def
      trim_def toLowerCase_def isWhiteSpace_def exampleLower_def)

lemma borscht_match:
  "sublist borscht_lower borscht_lower" "\<not> sublist borscht_lower (str ''beef stew'')"
  "borscht_lower \<noteq> []"
  by (simp_all add: borscht_lower_def str_def sublist_code)

theorem filter_engine_contract_witness:
  "list_all RecipeSummary [vegan_tacos, beef_stew]
   \<and> filtered exampleLower [vegan_tacos, beef_stew] (str '' TACOS '') (selector All)
       = Inr [vegan_tacos]
   \<and> subseq [vegan_tacos] [vegan_tacos, beef_stew]
   \<and> list_all RecipeSummary [beef_stew, borscht]
   \<and> filtered exampleLower [beef_stew, borscht] borscht_upper (selector Vegetarian) = Inr [borscht]"
  using filter_engine_contract [OF recipes_wf, of exampleLower "str '' TACOS ''" All]
    filter_engine_contract [OF borscht_wf, of exampleLower borscht_upper Vegetarian]
    recipes_wf borscht_wf
  by (simp add: text_predicate_def tacos_query titles_lower tacos_match borscht_query
      borscht_match)
     (simp add: flag_true_def has_tag_def borscht_def opt_get_def)

text \<open>
  Claim C4. With the diet selector \<open>all\<close> and a query that is empty after trimming (a query of
  white space included), the Filter Engine returns the input list as it is.
\<close>

theorem filter_identity:
  assumes "list_all RecipeSummary recipes" and "trim query = []"
  shows "filtered lower recipes query (str ''all'') = Inr recipes"
proof -
  have "matchRecipe lower (toLowerCase lower (trim query)) (str ''all'') r = Inr True"
    if "r \<in> set recipes" for r
  proof -
    from that assms(1) have "RecipeSummary r"
      by (simp add: list_all_iff)
    with assms(2) show ?thesis
      by (simp add: matchRecipe_contract toLowerCase_def)
  qed
  then have "filtered lower recipes query (str ''all'') = Inr (filter (\<lambda>r. True) recipes)"
    unfolding filtered_def Let_def by (rule filterE_total)
  then show ?thesis by simp
qed

lemma blank_query: "trim (str ''   '') = []"
  by (simp add: str_def trim_def isWhiteSpace_def)

theorem filter_identity_witness:
  "list_all RecipeSummary [vegan_tacos, beef_stew] \<and> trim (str ''   '') = []
   \<and> filtered exampleLower [vegan_tacos, beef_stew] (str ''   '') (str ''all'')
       = Inr [vegan_tacos, beef_stew]"
  using filter_identity [OF recipes_wf blank_query, of exampleLower] recipes_wf blank_query
  by simp

text \<open>
  Claim C9. With a diet selector other than \<open>all\<close>, \<open>vegetarian\<close>, \<open>vegan\<close> and
  \<open>glutenFree\<close>, the Filter Engine returns the empty list, whatever the list of RecipeSummary
  records and the query are.
\<close>

theorem unknown_selector_empty:
  assumes "list_all RecipeSummary recipes"
    and "diet \<notin> {str ''all'', str ''vegetarian'', str ''vegan'', str ''glutenFree''}"
  shows "filtered lower recipes query diet = Inr []"
proof -
  have "matchRecipe lower (toLowerCase lower (trim query)) diet r = Inr False"
    if "r \<in> set recipes" for r
  proof -
    from that assms(1) have "RecipeSummary r"
      by (simp add: list_all_iff)
    with assms(2) show ?thesis
      by (simp add: matchRecipe_contract)
  qed
  then have "filtered lower recipes query diet = Inr (filter (\<lambda>r. False) recipes)"
    unfolding filtered_def Let_def by (rule filterE_total)
  then show ?thesis by simp
qed

theorem unknown_selector_empty_witness:
  "list_all RecipeSummary [vegan_tacos, beef_stew]
   \<and> str ''paleo'' \<notin> {str ''all'', str ''vegetarian'', str ''vegan'', str ''glutenFree''}
   \<and> filtered exampleLower [vegan_tacos, beef_stew] [] (str ''paleo'') = Inr []"
  using unknown_selector_empty [OF recipes_wf, of "str ''paleo''" exampleLower "[]"] recipes_wf
  by simp

section \<open>Properties of the Statistics Aggregator\<close>

text \<open>
  Claim C7. For the empty filtered list the Statistics Aggregator returns the total 0 and the
  sentinel for the average ready time, the median health score and the number of cuisines.
\<close>

theorem stats_empty:
  "stats [] = Inr \<lparr>total = 0, avgReady = JStr dash, medianHS = JStr dash, cuisines = JStr dash\<rparr>"
  by (simp add: stats_def ready_def hs_def finiteNumbers_def cuisines_of_def avgReady_of_def
      medianHS_of_def setSize_def)

lemmas stats_eval = stats_def ready_def hs_def finiteNumbers_def cuisines_of_def avgReady_of_def
  medianHS_of_def setSize_def get_def opt_get_def isNullish_def Number_def bindE_def
  isFinite_def finiteValue_def toFixed1_def dec.simps str_def

lemma isFinite_simps [simp]:
  "isFinite (Fin q)" "\<not> isFinite NaN" "\<not> isFinite PosInf" "\<not> isFinite NegInf"
  by (simp_all add: isFinite_def)

lemma healthScores_simps [simp]:
  "healthScores [] = []"
  "healthScores (r # rs) =
     (case opt_get r ''healthScore'' of JNum (Fin q) \<Rightarrow> [q] | _ \<Rightarrow> []) @ healthScores rs"
  by (simp_all add: healthScores_def)

lemma bindE_eq_Inr: "bindE m f = Inr y \<longleftrightarrow> (\<exists>x. m = Inr x \<and> f x = Inr y)"
  by (cases m) simp_all

lemma mapE_total:
  assumes "\<And>x. x \<in> set xs \<Longrightarrow> f x = Inr (g x)"
  shows "mapE f xs = Inr (map g xs)"
  using assms by (induction xs) auto

lemma mapE_Inr_elem:
  assumes "mapE f xs = Inr ys" and "x \<in> set xs"
  shows "\<exists>y. f x = Inr y"
  using assms by (induction xs arbitrary: ys) (auto split: sum.splits)

lemma sort_key_Fin: "sort_key finiteValue (map Fin qs) = map Fin (sort qs)"
proof (induction qs)
  case Nil
  show ?case by simp
next
  case (Cons q qs)
  have "insort_key finiteValue (Fin q) (map Fin ys) = map Fin (insort q ys)" for ys
    by (induction ys) (simp_all add: finiteValue_def)
  with Cons show ?case by simp
qed

lemma stats_total_elems:
  assumes "stats rs = Inr s" and "r \<in> set rs"
  shows "\<not> isNullish r"
proof -
  from assms(1) obtain ns where "mapE (\<lambda>r. bindE (get r ''readyInMinutes'') Number) rs = Inr ns"
    by (auto simp: stats_def ready_def finiteNumbers_def bindE_eq_Inr)
  from mapE_Inr_elem [OF this assms(2)] show ?thesis
    by (auto simp: get_def bindE_eq_Inr split: if_splits)
qed

lemma hs_numbers:
  assumes "\<And>r. r \<in> set rs \<Longrightarrow> \<not> isNullish r"
    and "\<And>r. r \<in> set rs \<Longrightarrow>
           opt_get r ''healthScore'' = JUndefined \<or> isNumber (opt_get r ''healthScore'')"
  shows "hs rs = Inr (map Fin (sort (healthScores rs)))"
proof -
  let ?num = "\<lambda>r. case opt_get r ''healthScore'' of JNum n \<Rightarrow> n | _ \<Rightarrow> NaN"
  have "bindE (get r ''healthScore'') Number = Inr (?num r)" if "r \<in> set rs" for r
    using assms(1) [OF that] assms(2) [OF that]
    by (cases "opt_get r ''healthScore''") (auto simp: get_def Number_def isNumber_def)
  then have m: "mapE (\<lambda>r. bindE (get r ''healthScore'') Number) rs = Inr (map ?num rs)"
    by (rule mapE_total)
  have "filter isFinite (map ?num rs) = map Fin (healthScores rs)"
    using assms(2)
  proof (induction rs)
    case Nil
    show ?case by simp
  next
    case (Cons r rs)
    then have IH: "filter isFinite (map ?num rs) = map Fin (healthScores rs)"
      by simp
    from Cons.prems [of r] IH show ?case
      by (cases "opt_get r ''healthScore''") (auto simp: isNumber_def split: jsnum.splits)
  qed
  with m show ?thesis
    by (simp add: hs_def finiteNumbers_def sort_key_Fin)
qed

lemma medianHS_of_Fin:
  "medianHS_of (map Fin vs) =
     (if vs = [] then JStr dash
      else if odd (length vs) then JNum (Fin (vs ! (length vs div 2)))
      else JStr (toFixed1 (num_div (num_add (Fin (vs ! (length vs div 2 - 1)))
                                            (Fin (vs ! (length vs div 2)))) (Fin 2))))"
proof (cases "vs = []")
  case True
  then show ?thesis by (simp add: medianHS_of_def)
next
  case False
  then have pos: "0 < length vs" by simp
  show ?thesis
  proof (cases "odd (length vs)")
    case True
    then have "(length vs - 1) div 2 = length vs div 2"
      by presburger
    moreover from pos have "length vs div 2 < length vs" by simp
    ultimately show ?thesis
      using True False by (simp add: medianHS_of_def odd_iff_mod_2_eq_one)
  next
    case even: False
    with pos have "2 \<le> length vs"
      by presburger
    then have "length vs div 2 - 1 < length vs" "length vs div 2 < length vs"
      by simp_all
    then show ?thesis
      using even False by (simp add: medianHS_of_def even_iff_mod_2_eq_zero del: num_add.simps num_div.simps)
  qed
qed

lemma dec_digits:
  assumes "0 \<le> n"
  shows "dec n \<noteq> [] \<and> list_all isDigit (dec n)"
  using assms
proof (induction n rule: dec.induct)
  case (1 n)
  show ?case
  proof (cases "n < 10")
    case True
    with "1.prems" have "dec n = [48 + nat n]" "isDigit (48 + nat n)"
      by (simp_all add: dec.simps isDigit_def)
    then show ?thesis
      by simp
  next
    case False
    then have d: "dec n = dec (n div 10) @ [48 + nat (n mod 10)]"
      by (simp add: dec.simps)
    from False "1.prems" have "0 \<le> n div 10" by simp
    with "1.IH" False have "dec (n div 10) \<noteq> [] \<and> list_all isDigit (dec (n div 10))"
      by simp
    moreover have "isDigit (48 + nat (n mod 10))"
      by (simp add: isDigit_def)
    ultimately show ?thesis
      unfolding d by simp
  qed
qed

lemma toFixed1_oneDecimal:
  assumes "\<bar>q\<bar> < 10 ^ 21"
  shows "oneDecimal (toFixed1 (Fin q))"
proof -
  define m where "m = dec \<lfloor>\<bar>q\<bar> * 10 + 1 / 2\<rfloor>"
  define m' where "m' = (if length m \<le> 1 then 48 # m else m)"
  have "0 \<le> \<lfloor>\<bar>q\<bar> * 10 + 1 / 2\<rfloor>"
    by simp
  from dec_digits [OF this] have m: "m \<noteq> []" "list_all isDigit m"
    by (simp_all add: m_def)
  then have len: "2 \<le> length m'" and dig: "list_all isDigit m'"
    by (auto simp: m'_def isDigit_def Suc_le_eq)
  define ds where "ds = butlast m'"
  define d where "d = last m'"
  from len have m'ne: "m' \<noteq> []" by auto
  then have split: "m' = ds @ [d]"
    by (simp add: ds_def d_def)
  from len have dsne: "ds \<noteq> []"
    by (auto simp: ds_def simp flip: length_greater_0_conv)
  from dig split have digs: "list_all isDigit ds" "isDigit d"
    by simp_all
  from dsne digs(1) obtain c r where c: "ds = c # r" "c \<noteq> 45"
    by (cases ds) (auto simp: isDigit_def)
  have "toFixed1 (Fin q) = (if q < 0 then [45] else []) @ ds @ [46, d]"
    using assms by (simp add: toFixed1_def Let_def str_def ds_def d_def m'_def m_def)
  then show ?thesis
    using c dsne digs by (simp add: oneDecimal_def)
qed

text \<open>
  From \<open>10\<^sup>2\<^sup>1\<close> on, and for an infinity, \<open>toFixed(1)\<close> gives the string of the number itself,
  which has no such form.
\<close>

lemma toFixed1_beyond:
  "toFixed1 (Fin (10 ^ 21)) = str ''1e+21''" "toFixed1 PosInf = str ''Infinity''"
  "\<not> oneDecimal (str ''1e+21'')" "\<not> oneDecimal (str ''Infinity'')"
  by code_simp+

text \<open>
  Claim C2, amended. When the Statistics Aggregator returns and every health score is a number
  or is absent, the median health score is taken from the finite health scores in ascending
  order: for none of them it is the sentinel; for an odd count it is the middle value, a number
  that is not rounded; for an even count it is the string that \<open>toFixed(1)\<close> gives for the
  average of the two middle values. When this average is finite and below \<open>10\<^sup>2\<^sup>1\<close> in
  magnitude, the string has digits, a point and one digit, whether the average is integral or
  not. The scores 10, 20, 30, 40 give the string \<open>25.0\<close>, the scores 10, 20, 30 the number 20.
\<close>

theorem median_health_score:
  assumes "stats rs = Inr s"
    and "\<forall>r\<in>set rs. opt_get r ''healthScore'' = JUndefined \<or> isNumber (opt_get r ''healthScore'')"
    and "sorted vs" and "mset vs = mset (healthScores rs)"
  shows "medianHS s =
     (if vs = [] then JStr dash
      else if odd (length vs) then JNum (Fin (vs ! (length vs div 2)))
      else JStr (toFixed1 (num_div (num_add (Fin (vs ! (length vs div 2 - 1)))
                                            (Fin (vs ! (length vs div 2)))) (Fin 2))))
     \<and> (\<forall>q. vs \<noteq> [] \<and> even (length vs)
              \<and> num_div (num_add (Fin (vs ! (length vs div 2 - 1)))
                                  (Fin (vs ! (length vs div 2)))) (Fin 2) = Fin q
              \<and> \<bar>q\<bar> < 10 ^ 21
            \<longrightarrow> (\<exists>t. medianHS s = JStr t \<and> oneDecimal t))"
proof -
  from assms(3,4) have vs: "sort (healthScores rs) = vs"
    by (intro properties_for_sort)
  have "hs rs = Inr (map Fin vs)"
    using stats_total_elems [OF assms(1)] assms(2) by (simp add: hs_numbers vs)
  with assms(1) have "medianHS s = medianHS_of (map Fin vs)"
    by (auto simp: stats_def bindE_eq_Inr)
  then have median: "medianHS s =
     (if vs = [] then JStr dash
      else if odd (length vs) then JNum (Fin (vs ! (length vs div 2)))
      else JStr (toFixed1 (num_div (num_add (Fin (vs ! (length vs div 2 - 1)))
                                            (Fin (vs ! (length vs div 2)))) (Fin 2))))"
    by (simp only: medianHS_of_Fin)
  have "\<exists>t. medianHS s = JStr t \<and> oneDecimal t"
    if "vs \<noteq> []" "even (length vs)"
      "num_div (num_add (Fin (vs ! (length vs div 2 - 1))) (Fin (vs ! (length vs div 2)))) (Fin 2)
       = Fin q"
      "\<bar>q\<bar> < 10 ^ 21" for q
  proof -
    from median that(1,2,3) have "medianHS s = JStr (toFixed1 (Fin q))"
      by (simp del: num_add.simps num_div.simps)
    with toFixed1_oneDecimal [OF that(4)] show ?thesis
      by blast
  qed
  with median show ?thesis
    by blast
qed

lemma stats_scores_even:
  "stats scores_even =
     Inr \<lparr>total = 4, avgReady = JStr dash, medianHS = JStr (str ''25.0''), cuisines = JStr dash\<rparr>"
  by (simp add: scores_even_def score_def stats_eval double_eval)

lemma stats_scores_odd:
  "stats scores_odd =
     Inr \<lparr>total = 3, avgReady = JStr dash, medianHS = JNum (Fin 20), cuisines = JStr dash\<rparr>"
  by (simp add: scores_odd_def score_def stats_eval double_eval)

lemma average_25:
  "num_div (num_add (Fin 20) (Fin 30)) (Fin 2) = Fin 25" "oneDecimal (str ''25.0'')"
  by (simp_all add: double_eval oneDecimal_def isDigit_def str_def)

lemma scores_shape:
  "\<forall>r\<in>set scores_even. opt_get r ''healthScore'' = JUndefined \<or> isNumber (opt_get r ''healthScore'')"
  "\<forall>r\<in>set scores_odd. opt_get r ''healthScore'' = JUndefined \<or> isNumber (opt_get r ''healthScore'')"
  by (simp_all add: scores_even_def scores_odd_def score_def opt_get_def isNumber_def)

lemma scores_values:
  "healthScores scores_even = [10, 20, 30, 40]" "healthScores scores_odd = [10, 20, 30]"
  by (simp_all add: scores_even_def scores_odd_def score_def opt_get_def)

text \<open>
  Claim C2 as stated fails at the scores 10, 20, 30, 40: the average 25 of the two middle values
  is integral and is formatted all the same, so that the result is the string \<open>25.0\<close>, not the
  number 25.
\<close>

theorem median_even_is_formatted:
  "stats scores_even =
     Inr \<lparr>total = 4, avgReady = JStr dash, medianHS = JStr (str ''25.0''), cuisines = JStr dash\<rparr>
   \<and> JStr (str ''25.0'') \<noteq> JNum (Fin 25)"
  by (simp add: stats_scores_even)

theorem median_health_score_witness:
  "stats scores_even =
     Inr \<lparr>total = 4, avgReady = JStr dash, medianHS = JStr (str ''25.0''), cuisines = JStr dash\<rparr>
   \<and> sorted [10, 20, 30, 40 :: rat] \<and> mset [10, 20, 30, 40] = mset (healthScores scores_even)
   \<and> JStr (str ''25.0'') = JStr (toFixed1 (num_div (num_add (Fin 20) (Fin 30)) (Fin 2)))
   \<and> num_div (num_add (Fin 20) (Fin 30)) (Fin 2) = Fin 25 \<and> oneDecimal (str ''25.0'')
   \<and> stats scores_odd =
     Inr \<lparr>total = 3, avgReady = JStr dash, medianHS = JNum (Fin 20), cuisines = JStr dash\<rparr>
   \<and> sorted [10, 20, 30 :: rat] \<and> mset [10, 20, 30] = mset (healthScores scores_odd)"
  using median_health_score [OF stats_scores_even scores_shape(1), of "[10, 20, 30, 40]"]
    median_health_score [OF stats_scores_odd scores_shape(2), of "[10, 20, 30]"]
    stats_scores_even stats_scores_odd average_25
  by (simp add: scores_values del: num_add.simps num_div.simps)

text \<open>
  Claim C1: a ready time that is no number is left out of the mean and never counted as zero.
  The code counts \<open>null\<close> as zero: of two recipes with the ready times \<open>null\<close> and 30 the
  average is \<open>15.0\<close>, not \<open>30.0\<close>, and of the one recipe with the ready time \<open>null\<close> it is
  \<open>0.0\<close>, not the sentinel.
\<close>

theorem null_ready_time_counts_as_zero:
  "stats [no_time, half_hour] =
     Inr \<lparr>total = 2, avgReady = JStr (str ''15.0''), medianHS = JStr (str ''80.0''),
           cuisines = JStr dash\<rparr>
   \<and> stats [no_time] =
     Inr \<lparr>total = 1, avgReady = JStr (str ''0.0''), medianHS = JNum (Fin 80),
           cuisines = JStr dash\<rparr>"
  by (simp add: no_time_def half_hour_def stats_eval double_eval)

section \<open>Properties of the Nutrition Series Builder\<close>

lemma opt_get_nutrient [simp]:
  "opt_get (nutrient_json (nm, a, u)) ''name'' = JStr nm"
  "opt_get (nutrient_json (nm, a, u)) ''amount'' = JNum a"
  "opt_get (nutrient_json (nm, a, u)) ''unit'' = (case u of None \<Rightarrow> JUndefined | Some t \<Rightarrow> JStr t)"
  by (simp_all add: nutrient_json_def opt_get_def split: option.split)

lemma find_typed:
  "List.find (\<lambda>x. opt_get x ''name'' = JStr key) (map nutrient_json nr)
   = (case map_of nr key of None \<Rightarrow> None | Some (a, u) \<Rightarrow> Some (nutrient_json (key, a, u)))"
  by (induction nr) (auto split: option.splits)

lemma nutrients_typed [simp]: "nutrients (nutrition_json nr) = map nutrient_json nr"
  by (simp add: nutrients_def nutrition_json_def opt_get_def)

lemma truthy_nutrient [simp]: "truthy (nutrient_json e)" "\<not> isNullish (nutrient_json e)"
  by (simp_all add: nutrient_json_def truthy_def isNullish_def split: prod.splits)

lemma truthy_simps [simp]:
  "\<not> truthy JUndefined" "\<not> truthy JNull" "truthy (JBool b) = b" "truthy (JStr s) = (s \<noteq> [])"
  "truthy (JArr vs)" "truthy (JObj props)"
  by (simp_all add: truthy_def)

lemma opt_get_not_object [simp]:
  "opt_get JUndefined key = JUndefined" "opt_get JNull key = JUndefined"
  by (simp_all add: opt_get_def)

lemma find_nutrient_typed:
  "find_nutrient (map nutrient_json nr) k fb =
     Inr \<lparr>amount = amount_of nr k,
          unit = JStr (case map_of nr (str k) of
                         Some (a, Some t) \<Rightarrow> if t = [] then str fb else t
                       | _ \<Rightarrow> str fb)\<rparr>"
proof (cases "map_of nr (str k)")
  case None
  then show ?thesis
    by (simp add: find_nutrient_def find_typed amount_of_def or_else_def)
next
  case (Some e)
  obtain a u where e: "e = (a, u)" by (cases e)
  show ?thesis
  proof (cases u)
    case None
    with Some e show ?thesis
      by (simp add: find_nutrient_def find_typed amount_of_def get_def Number_def or_else_def)
  next
    case (Some t)
    with \<open>map_of nr (str k) = Some e\<close> e show ?thesis
      by (simp add: find_nutrient_def find_typed amount_of_def get_def Number_def or_else_def)
  qed
qed

lemma kcal_of_amount: "num_mul (amount_of nr k) (Fin f) = kcal_of nr k f"
  by (simp add: amount_of_def kcal_of_def split: option.splits)

lemma bars_typed:
  "mapE (\<lambda>k. bindE (find_nutrient (map nutrient_json nr) k (if k = ''Calories'' then ''kcal'' else ''g''))
                 (\<lambda>f. Inr (bar k (amount f) (unit f)))) ks
   = Inr (map (key_nutrient nr) ks)"
  by (rule mapE_total)
     (auto simp: find_nutrient_typed key_nutrient_def amount_of_def default_unit_def
        split: option.splits)

lemma NutritionCharts_typed:
  "NutritionCharts (nutrition_json nr) =
     Inr \<lparr>donutData = JArr (macro_split nr), barData = JArr (map (key_nutrient nr) BAR_KEYS)\<rparr>"
  unfolding NutritionCharts_def Let_def nutrients_typed bars_typed
  by (simp add: find_nutrient_typed kcal_of_amount macro_split_def del: num_mul.simps)

text \<open>
  Claim C5. For every NutritionRecord the macro-calorie split has the three entries Protein, Fat
  and Carbs, in this order; their values are the grams of protein times 4, of fat times 9 and of
  carbohydrates times 4, and a nutrient that the record does not have gives the value 0.
\<close>

theorem macro_calorie_split:
  "\<exists>ch. NutritionCharts (nutrition_json nr) = Inr ch
        \<and> donutData ch =
            JArr [slice ''Protein'' (kcal_of nr ''Protein'' 4),
                  slice ''Fat'' (kcal_of nr ''Fat'' 9),
                  slice ''Carbs'' (kcal_of nr ''Carbohydrates'' 4)]"
  by (simp add: NutritionCharts_typed macro_split_def)

lemma macros_kcal:
  "kcal_of macros_example ''Protein'' 4 = Fin 40"
  "kcal_of macros_example ''Fat'' 9 = Fin 45"
  "kcal_of macros_example ''Carbohydrates'' 4 = Fin 80"
  by (simp_all add: kcal_of_def macros_example_def double_eval)

theorem macro_calorie_split_witness:
  "\<exists>ch. NutritionCharts (nutrition_json macros_example) = Inr ch
        \<and> donutData ch =
            JArr [slice ''Protein'' (Fin 40), slice ''Fat'' (Fin 45), slice ''Carbs'' (Fin 80)]"
  using macro_calorie_split [of macros_example]
  by (simp add: macros_kcal)

text \<open>
  Claim C6. For every NutritionRecord the key-nutrient series has the six entries Calories,
  Protein, Fat, Carbohydrates, Fiber and Sugar, in this order, each looked up by its exact name.
  A nutrient that the record does not have gives the amount 0 and the default unit (\<open>kcal\<close> for
  Calories, \<open>g\<close> for the others); a nutrient without a unit gives its amount and the default
  unit.
\<close>

theorem key_nutrient_series:
  "\<exists>ch. NutritionCharts (nutrition_json nr) = Inr ch
        \<and> barData ch =
            JArr (map (key_nutrient nr)
                   [''Calories'', ''Protein'', ''Fat'', ''Carbohydrates'', ''Fiber'', ''Sugar''])"
  by (simp add: NutritionCharts_typed BAR_KEYS_def)

lemma macros_bars:
  "map (key_nutrient macros_example)
     [''Calories'', ''Protein'', ''Fat'', ''Carbohydrates'', ''Fiber'', ''Sugar'']
   = [bar ''Calories'' (Fin 305) (JStr (str ''kcal'')), bar ''Protein'' (Fin 10) (JStr (str ''g'')),
      bar ''Fat'' (Fin 5) (JStr (str ''g'')), bar ''Carbohydrates'' (Fin 20) (JStr (str ''g'')),
      bar ''Fiber'' (Fin 0) (JStr (str ''g'')), bar ''Sugar'' (Fin 0) (JStr (str ''g''))]"
  by (simp add: key_nutrient_def macros_example_def default_unit_def)

theorem key_nutrient_series_witness:
  "\<exists>ch. NutritionCharts (nutrition_json macros_example) = Inr ch
        \<and> barData ch =
            JArr [bar ''Calories'' (Fin 305) (JStr (str ''kcal'')),
                  bar ''Protein'' (Fin 10) (JStr (str ''g'')),
                  bar ''Fat'' (Fin 5) (JStr (str ''g'')),
                  bar ''Carbohydrates'' (Fin 20) (JStr (str ''g'')),
                  bar ''Fiber'' (Fin 0) (JStr (str ''g'')),
                  bar ''Sugar'' (Fin 0) (JStr (str ''g''))]"
  using key_nutrient_series [of macros_example]
  by (simp only: macros_bars)

lemma find_nutrient_cases:
  assumes "find_nutrient ns k fb = Inr f"
  shows "case List.find (\<lambda>x. opt_get x ''name'' = JStr (str k)) ns of
           None \<Rightarrow> amount f = Fin 0 \<and> unit f = JStr (str fb)
         | Some n \<Rightarrow> Number (opt_get n ''amount'') = Inr (amount f)
                     \<and> unit f = or_else (opt_get n ''unit'') (JStr (str fb))"
proof (cases "List.find (\<lambda>x. opt_get x ''name'' = JStr (str k)) ns")
  case None
  with assms show ?thesis
    by (auto simp: find_nutrient_def or_else_def)
next
  case (Some n)
  then have "opt_get n ''name'' = JStr (str k)"
    by (auto simp: find_Some_iff)
  then obtain props where "n = JObj props"
    by (cases n) (auto simp: opt_get_def)
  with assms Some show ?thesis
    by (auto simp: find_nutrient_def Let_def get_def isNullish_def bindE_eq_Inr)
qed

lemma mapE_nth:
  assumes "mapE f xs = Inr ys"
  shows "length ys = length xs \<and> (\<forall>i<length xs. f (xs ! i) = Inr (ys ! i))"
  using assms
proof (induction xs arbitrary: ys)
  case Nil
  then show ?case by simp
next
  case (Cons x xs)
  then obtain y ys' where y: "f x = Inr y" "mapE f xs = Inr ys'" "ys = y # ys'"
    by (auto split: sum.splits)
  with Cons.IH [of ys'] show ?case
    by (auto simp: nth_Cons split: nat.splits)
qed

lemma Number_cases:
  assumes "Number v = Inr a"
  shows "(v = JUndefined \<longrightarrow> a = NaN) \<and> (v = JNull \<longrightarrow> a = Fin 0)
         \<and> (\<forall>b. v = JBool b \<longrightarrow> a = (if b then Fin 1 else Fin 0))
         \<and> (\<forall>s. v = JStr s \<longrightarrow> a = StringToNumber s)"
  using assms by (auto simp: Number_def)

lemma fallback_unit: "k \<in> set BAR_KEYS \<Longrightarrow> str (if k = ''Calories'' then ''kcal'' else ''g'') = default_unit k"
  by (simp add: default_unit_def)

text \<open>
  Claim C10, amended. When the Nutrition Series Builder returns, the entry of a key has the amount
  0 and the default unit if no nutrient has this exact name. Otherwise its amount is
  \<open>Number(amount)\<close> of the first nutrient of this name, and only the unit falls back to the
  default: an amount that is missing gives \<open>NaN\<close>, a string gives the number that it denotes
  (\<open>NaN\<close> when it denotes none), \<open>null\<close> gives 0 and a boolean gives 0 or 1.
\<close>

theorem present_amount_is_coerced:
  assumes "NutritionCharts nutrition = Inr ch" and "i < length BAR_KEYS"
  shows "\<exists>bars a u.
           barData ch = JArr bars \<and> length bars = length BAR_KEYS
           \<and> bars ! i = bar (BAR_KEYS ! i) a u
           \<and> (case List.find (\<lambda>x. opt_get x ''name'' = JStr (str (BAR_KEYS ! i))) (nutrients nutrition) of
                None \<Rightarrow> a = Fin 0 \<and> u = JStr (default_unit (BAR_KEYS ! i))
              | Some n \<Rightarrow>
                  Number (opt_get n ''amount'') = Inr a
                  \<and> u = or_else (opt_get n ''unit'') (JStr (default_unit (BAR_KEYS ! i)))
                  \<and> (opt_get n ''amount'' = JUndefined \<longrightarrow> a = NaN)
                  \<and> (opt_get n ''amount'' = JNull \<longrightarrow> a = Fin 0)
                  \<and> (\<forall>b. opt_get n ''amount'' = JBool b \<longrightarrow> a = (if b then Fin 1 else Fin 0))
                  \<and> (\<forall>s. opt_get n ''amount'' = JStr s \<longrightarrow> a = StringToNumber s))"
proof -
  let ?k = "BAR_KEYS ! i"
  let ?ns = "nutrients nutrition"
  let ?entry = "\<lambda>k. bindE (find_nutrient ?ns k (if k = ''Calories'' then ''kcal'' else ''g''))
                        (\<lambda>f. Inr (bar k (amount f) (unit f)))"
  from assms(1) obtain bars where bars: "mapE ?entry BAR_KEYS = Inr bars" "barData ch = JArr bars"
    by (auto simp: NutritionCharts_def Let_def bindE_eq_Inr)
  from mapE_nth [OF bars(1)] assms(2)
  have len: "length bars = length BAR_KEYS" and "?entry ?k = Inr (bars ! i)"
    by simp_all
  then obtain f where f: "find_nutrient ?ns ?k (if ?k = ''Calories'' then ''kcal'' else ''g'') = Inr f"
    and b: "bars ! i = bar ?k (amount f) (unit f)"
    by (auto simp: bindE_eq_Inr)
  from assms(2) have "?k \<in> set BAR_KEYS" by simp
  note fu = fallback_unit [OF this]
  have "case List.find (\<lambda>x. opt_get x ''name'' = JStr (str ?k)) ?ns of
          None \<Rightarrow> amount f = Fin 0 \<and> unit f = JStr (default_unit ?k)
        | Some n \<Rightarrow>
            Number (opt_get n ''amount'') = Inr (amount f)
            \<and> unit f = or_else (opt_get n ''unit'') (JStr (default_unit ?k))
            \<and> (opt_get n ''amount'' = JUndefined \<longrightarrow> amount f = NaN)
            \<and> (opt_get n ''amount'' = JNull \<longrightarrow> amount f = Fin 0)
            \<and> (\<forall>b. opt_get n ''amount'' = JBool b \<longrightarrow> amount f = (if b then Fin 1 else Fin 0))
            \<and> (\<forall>s. opt_get n ''amount'' = JStr s \<longrightarrow> amount f = StringToNumber s)"
  proof (cases "List.find (\<lambda>x. opt_get x ''name'' = JStr (str ?k)) ?ns")
    case None
    with find_nutrient_cases [OF f] show ?thesis
      unfolding fu by simp
  next
    case (Some n)
    with find_nutrient_cases [OF f]
    have N: "Number (opt_get n ''amount'') = Inr (amount f)"
      and U: "unit f = or_else (opt_get n ''unit'') (JStr (default_unit ?k))"
      unfolding fu by simp_all
    from Number_cases [OF N] N U Some show ?thesis
      by simp
  qed
  with bars(2) len b show ?thesis
    by blast
qed

lemma not_available: "StringToNumber (str ''n/a'') = NaN" "StringToNumber [] = Fin 0"
  by (simp_all add: StringToNumber_def trim_def isWhiteSpace_def NonDecimalIntegerLiteral_def
      StrUnsignedDecimalLiteral_def isDigit_def str_def)

lemma fiber_null_eval: "NutritionCharts fiber_null = Inr fiber_null_charts"
  by (simp add: NutritionCharts_def nutrients_def fiber_null_def fiber_null_charts_def BAR_KEYS_def
      find_nutrient_def opt_get_def get_def isNullish_def Number_def or_else_def Let_def
      not_available)

text \<open>
  Claim C10 as stated fails at a record whose Fiber has the amount \<open>null\<close>, which is no numeric
  amount: the Fiber entry has the amount 0, not \<open>NaN\<close>. (The Sugar of this record has no amount
  and its Calories have the amount \<open>n/a\<close>: their entries have the amount \<open>NaN\<close>.)
\<close>

theorem null_amount_is_zero:
  "NutritionCharts fiber_null = Inr fiber_null_charts
   \<and> barData fiber_null_charts =
       JArr [bar ''Calories'' NaN (JStr (str ''kcal'')), bar ''Protein'' (Fin 0) (JStr (str ''g'')),
             bar ''Fat'' (Fin 0) (JStr (str ''g'')), bar ''Carbohydrates'' (Fin 0) (JStr (str ''g'')),
             bar ''Fiber'' (Fin 0) (JStr (str ''g'')), bar ''Sugar'' NaN (JStr (str ''g''))]
   \<and> Fin 0 \<noteq> NaN"
  by (simp add: fiber_null_eval) (simp add: fiber_null_charts_def)

theorem present_amount_is_coerced_witness:
  "NutritionCharts fiber_null = Inr fiber_null_charts \<and> 4 < length BAR_KEYS
   \<and> BAR_KEYS ! 4 = ''Fiber''
   \<and> List.find (\<lambda>x. opt_get x ''name'' = JStr (str ''Fiber'')) (nutrients fiber_null)
       = Some (JObj [(str ''name'', JStr (str ''Fiber'')), (str ''amount'', JNull),
                     (str ''unit'', JStr (str ''g''))])
   \<and> (\<exists>bars u. barData fiber_null_charts = JArr bars \<and> bars ! 4 = bar ''Fiber'' (Fin 0) u)"
proof -
  have k: "4 < length BAR_KEYS" "BAR_KEYS ! 4 = ''Fiber''"
    by (simp_all add: BAR_KEYS_def)
  have n: "List.find (\<lambda>x. opt_get x ''name'' = JStr (str ''Fiber'')) (nutrients fiber_null)
       = Some (JObj [(str ''name'', JStr (str ''Fiber'')), (str ''amount'', JNull),
                     (str ''unit'', JStr (str ''g''))])"
    by (simp add: nutrients_def fiber_null_def opt_get_def)
  from present_amount_is_coerced [OF fiber_null_eval k(1)]
  have "\<exists>bars u. barData fiber_null_charts = JArr bars \<and> bars ! 4 = bar ''Fiber'' (Fin 0) u"
    unfolding k(2) n by (auto simp: opt_get_def)
  with fiber_null_eval k n show ?thesis
    by simp
qed

section \<open>Properties of the Text Sanitizer\<close>

lemma concat_concat_map: "concat (concat (map f xs)) = concat (map (\<lambda>x. concat (f x)) xs)"
  by (induction xs) simp_all

lemma descendantText_textNodes: "descendantText n = concat (textNodes n)"
proof (induction n)
  case (Element tag children)
  then have m: "map descendantText children = map (\<lambda>c. concat (textNodes c)) children"
    by simp
  show ?case
    unfolding descendantText.simps textNodes.simps m concat_concat_map ..
qed simp_all

lemma textContent_textNodes: "textContent children = concat (concat (map textNodes children))"
proof -
  have "descendantText = (\<lambda>n. concat (textNodes n))"
    by (rule ext) (rule descendantText_textNodes)
  then show ?thesis
    by (simp add: textContent_def concat_concat_map)
qed

text \<open>
  Claim C8. The Text Sanitizer returns the text nodes of the parsed text, concatenated in
  document order, and nothing of the tags. When the browser parses \<open><p>Hello <b>World</b></p>\<close>
  into a \<open>p\<close> element with the text \<open>Hello \<close> and a \<open>b\<close> element with the text \<open>World\<close>, the
  result is \<open>Hello World\<close>. The empty string and \<open>null\<close> (and \<open>undefined\<close>) are parsed as the empty
  string and give the empty string, no error.
\<close>

theorem stripHtml_plain_text:
  "(setInnerHTML (or_else html (JStr [])) = Inr children
      \<longrightarrow> stripHtml setInnerHTML html = Inr (concat (concat (map textNodes children))))
   \<and> (setInnerHTML (JStr hello_world) = Inr hello_world_nodes
      \<longrightarrow> stripHtml setInnerHTML (JStr hello_world) = Inr (str ''Hello World''))
   \<and> (setInnerHTML (JStr []) = Inr []
      \<longrightarrow> stripHtml setInnerHTML (JStr []) = Inr [] \<and> stripHtml setInnerHTML JNull = Inr []
          \<and> stripHtml setInnerHTML JUndefined = Inr [])"
proof (intro conjI impI)
  assume "setInnerHTML (or_else html (JStr [])) = Inr children"
  then show "stripHtml setInnerHTML html = Inr (concat (concat (map textNodes children)))"
    by (simp add: stripHtml_def innerText_def textContent_textNodes)
next
  have "textContent hello_world_nodes = str ''Hello World''"
    by (simp add: textContent_def hello_world_nodes_def str_def)
  moreover assume "setInnerHTML (JStr hello_world) = Inr hello_world_nodes"
  ultimately show "stripHtml setInnerHTML (JStr hello_world) = Inr (str ''Hello World'')"
    by (simp add: stripHtml_def innerText_def or_else_def hello_world_def)
next
  assume e: "setInnerHTML (JStr []) = Inr []"
  then show "stripHtml setInnerHTML (JStr []) = Inr []"
    by (simp add: stripHtml_def or_else_def textContent_def innerText_def)
  from e show "stripHtml setInnerHTML JNull = Inr []"
    by (simp add: stripHtml_def or_else_def textContent_def innerText_def)
  from e show "stripHtml setInnerHTML JUndefined = Inr []"
    by (simp add: stripHtml_def or_else_def textContent_def innerText_def)
qed

theorem stripHtml_plain_text_witness:
  "demo_setter (or_else (JStr hello_world) (JStr [])) = Inr hello_world_nodes
   \<and> demo_setter (JStr hello_world) = Inr hello_world_nodes
   \<and> demo_setter (JStr []) = Inr []
   \<and> stripHtml demo_setter (JStr hello_world) = Inr (str ''Hello World'')
   \<and> stripHtml demo_setter (JStr []) = Inr []
   \<and> stripHtml demo_setter JNull = Inr []"
  using stripHtml_plain_text [of demo_setter "JStr hello_world" hello_world_nodes]
  by (simp add: demo_setter_def or_else_def hello_world_def)
     (simp add: hello_world_nodes_def str_def)

end
